theory Spec2Isabelle
  imports Main "HOL-Library.Word" "HOL-Library.Sublist"
begin

section \<open>Strings\<close>

text \<open>
  A JavaScript string is a sequence of UTF-16 code units. String literals of the source
  are written with \<open>lit\<close>, which maps each character of an ASCII literal to its code unit.
\<close>

type_synonym jsstring = "16 word list"

definition lit :: "string \<Rightarrow> jsstring" where
  "lit s = map (\<lambda>c. of_nat (of_char c)) s"

text \<open>
  \<open>String.prototype.trim\<close> strips the code points of WhiteSpace and LineTerminator from
  both ends: TAB, LF, VT, FF, CR, SP, NBSP, U+1680, U+2000 to U+200A, U+2028, U+2029,
  U+202F, U+205F, U+3000 and U+FEFF. All of them are single code units.
\<close>

definition isWhiteSpace :: "16 word \<Rightarrow> bool" where
  "isWhiteSpace c =
     (c = 0x0009 \<or> c = 0x000A \<or> c = 0x000B \<or> c = 0x000C \<or> c = 0x000D \<or> c = 0x0020
      \<or> c = 0x00A0 \<or> c = 0x1680 \<or> (0x2000 \<le> c \<and> c \<le> 0x200A) \<or> c = 0x2028
      \<or> c = 0x2029 \<or> c = 0x202F \<or> c = 0x205F \<or> c = 0x3000 \<or> c = 0xFEFF)"

definition trim :: "jsstring \<Rightarrow> jsstring" where
  "trim s = rev (dropWhile isWhiteSpace (rev (dropWhile isWhiteSpace s)))"

text \<open>A string is truthy exactly when it is not empty.\<close>

definition truthy :: "jsstring \<Rightarrow> bool" where
  "truthy s = (s \<noteq> [])"

section \<open>Data model\<close>

text \<open>
  The interface \<open>GeneratedImage\<close> (lines 26 to 32). The fields \<open>id\<close>, \<open>prompt\<close> and
  \<open>aspectRatio\<close> carry the prefix \<open>img_\<close>: \<open>id\<close> is a constant of HOL, and the other two
  are also names of state variables of the component.
\<close>

record GeneratedImage =
  img_id :: jsstring
  url :: jsstring
  img_prompt :: jsstring
  timestamp :: int
  img_aspectRatio :: jsstring

text \<open>The values of \<open>ASPECT_RATIOS\<close> (lines 35 to 41).\<close>

definition ASPECT_RATIOS :: "jsstring list" where
  "ASPECT_RATIOS = [lit ''1:1'', lit ''16:9'', lit ''9:16'', lit ''4:3'', lit ''3:4'']"

text \<open>The six \<open>useState\<close> variables of \<open>App\<close> (lines 44 to 49).\<close>

record AppState =
  prompt :: jsstring
  isGenerating :: bool
  aspectRatio :: jsstring
  history :: "GeneratedImage list"
  selectedImage :: "GeneratedImage option"
  error :: "jsstring option"

definition initialState :: AppState where
  "initialState =
     \<lparr>prompt = [], isGenerating = False, aspectRatio = lit ''1:1'', history = [],
      selectedImage = None, error = None\<rparr>"

text \<open>
  A call of a state setter. \<open>setHistory\<close> is only ever called with an updater function
  (lines 99 and 114), which React applies to the history current at that moment.
\<close>

datatype setter =
    SetPrompt jsstring
  | SetIsGenerating bool
  | SetAspectRatio jsstring
  | SetHistory "GeneratedImage list \<Rightarrow> GeneratedImage list"
  | SetSelectedImage "GeneratedImage option"
  | SetError "jsstring option"

fun apply_setter :: "AppState \<Rightarrow> setter \<Rightarrow> AppState" where
  "apply_setter s (SetPrompt p) = s\<lparr>prompt := p\<rparr>"
| "apply_setter s (SetIsGenerating b) = s\<lparr>isGenerating := b\<rparr>"
| "apply_setter s (SetAspectRatio a) = s\<lparr>aspectRatio := a\<rparr>"
| "apply_setter s (SetHistory f) = s\<lparr>history := f (history s)\<rparr>"
| "apply_setter s (SetSelectedImage i) = s\<lparr>selectedImage := i\<rparr>"
| "apply_setter s (SetError e) = s\<lparr>error := e\<rparr>"

text \<open>The state after a sequence of setter calls, and the states after each of them.\<close>

definition apply_setters :: "AppState \<Rightarrow> setter list \<Rightarrow> AppState" where
  "apply_setters s q = foldl apply_setter s q"

fun states_after :: "AppState \<Rightarrow> setter list \<Rightarrow> AppState list" where
  "states_after s [] = []"
| "states_after s (u # q) = apply_setter s u # states_after (apply_setter s u) q"

section \<open>The external capability\<close>

text \<open>
  The part of the client library's response that the code reads: every level is
  optional, as the optional chaining of line 84 expects. The field \<open>text\<close> of a part is
  named \<open>part_text\<close>.
\<close>

record Blob =
  data :: "jsstring option"
  mimeType :: "jsstring option"

record Part =
  inlineData :: "Blob option"
  part_text :: "jsstring option"

record Content =
  parts :: "Part list option"

record Candidate =
  content :: "Content option"

record GenerateContentResponse =
  candidates :: "Candidate list option"

text \<open>
  A fault raised by the request is an error object; \<open>message\<close> is \<open>None\<close> when the
  object has no such property.
\<close>

record Fault =
  message :: "jsstring option"

datatype outcome = Resolved GenerateContentResponse | Rejected Fault

text \<open>The argument of \<open>generateContent\<close> (lines 71 to 81).\<close>

record GenerateContentParameters =
  model :: jsstring
  contents_text :: jsstring
  config_aspectRatio :: jsstring

text \<open>
  The variables \<open>prompt\<close> and \<open>aspectRatio\<close> that the running invocation closed over:
  the code after the \<open>await\<close> reads these, not the state of that later moment.
\<close>

record closure =
  c_prompt :: jsstring
  c_aspectRatio :: jsstring

section \<open>handleGenerate\<close>

definition API_KEY_ERROR :: jsstring where
  "API_KEY_ERROR = lit ''API Key not found. Please check your environment variables.''"

definition NO_IMAGE_ERROR :: jsstring where
  "NO_IMAGE_ERROR = lit ''No image data returned from the model.''"

definition FALLBACK_ERROR :: jsstring where
  "FALLBACK_ERROR = lit ''An unexpected error occurred during generation.''"

definition DATA_URI_PREFIX :: jsstring where
  "DATA_URI_PREFIX = lit ''data:image/png;base64,''"

text \<open>
  The synchronous part of \<open>handleGenerate\<close> (lines 60 to 81), up to the \<open>await\<close>: the
  setter calls it makes, and the request it issues, if any, with the closure that waits
  for the answer. \<open>ai\<close> is \<open>aiRef.current\<close>: the client, here the key it was built with,
  or \<open>None\<close> for \<open>null\<close>.
\<close>

definition handleGenerate_begin ::
    "jsstring option \<Rightarrow> AppState \<Rightarrow> setter list \<times> (GenerateContentParameters \<times> closure) option" where
  "handleGenerate_begin ai s =
     (if \<not> truthy (trim (prompt s)) then ([], None)
      else case ai of
        None \<Rightarrow> ([SetError (Some API_KEY_ERROR)], None)
      | Some client \<Rightarrow>
          ([SetIsGenerating True, SetError None],
           Some (\<lparr>model = lit ''gemini-2.5-flash-image'', contents_text = prompt s,
                   config_aspectRatio = aspectRatio s\<rparr>,
                 \<lparr>c_prompt = prompt s, c_aspectRatio = aspectRatio s\<rparr>)))"

text \<open>\<open>response.candidates?.[0]?.content?.parts || []\<close> (line 84).\<close>

definition response_parts :: "GenerateContentResponse \<Rightarrow> Part list" where
  "response_parts response =
     (case candidates response of
        None \<Rightarrow> []
      | Some [] \<Rightarrow> []
      | Some (c # cs) \<Rightarrow>
          (case content c of
             None \<Rightarrow> []
           | Some ct \<Rightarrow> (case parts ct of None \<Rightarrow> [] | Some ps \<Rightarrow> ps)))"

text \<open>A template literal renders \<open>undefined\<close> as the text "undefined".\<close>

definition template :: "jsstring option \<Rightarrow> jsstring" where
  "template v = (case v of None \<Rightarrow> lit ''undefined'' | Some d \<Rightarrow> d)"

text \<open>The loop of lines 84 to 89, started with the value \<open>imageUrl\<close> has before it.\<close>

fun scan_parts :: "jsstring \<Rightarrow> Part list \<Rightarrow> jsstring" where
  "scan_parts imageUrl [] = imageUrl"
| "scan_parts imageUrl (part # rest) =
     (case inlineData part of
        Some blob \<Rightarrow> DATA_URI_PREFIX @ template (data blob)
      | None \<Rightarrow> scan_parts imageUrl rest)"

text \<open>
  The \<open>try\<close> block after the \<open>await\<close> (lines 83 to 104), up to the first setter call:
  either the new image, or the error that is thrown. \<open>randomId\<close> is the value of
  \<open>Math.random().toString(36).substring(7)\<close> and \<open>now\<close> that of \<open>Date.now()\<close>.
\<close>

definition try_block :: "closure \<Rightarrow> jsstring \<Rightarrow> int \<Rightarrow> outcome \<Rightarrow> Fault + GeneratedImage" where
  "try_block c randomId now out =
     (case out of
        Rejected err \<Rightarrow> Inl err
      | Resolved response \<Rightarrow>
          (let imageUrl = scan_parts [] (response_parts response) in
           if truthy imageUrl then
             Inr \<lparr>img_id = randomId, url = imageUrl, img_prompt = c_prompt c,
                  timestamp = now, img_aspectRatio = c_aspectRatio c\<rparr>
           else Inl \<lparr>message = Some NO_IMAGE_ERROR\<rparr>))"

text \<open>\<open>err.message || "An unexpected error occurred during generation."\<close> (line 107).\<close>

definition error_text :: "Fault \<Rightarrow> jsstring" where
  "error_text err =
     (case message err of
        Some m \<Rightarrow> if truthy m then m else FALLBACK_ERROR
      | None \<Rightarrow> FALLBACK_ERROR)"

text \<open>
  The setter calls of \<open>handleGenerate\<close> after the \<open>await\<close> (lines 99 to 110): those of
  the \<open>try\<close> block or of the \<open>catch\<close> block, then the one of the \<open>finally\<close> block.
\<close>

definition handleGenerate_resume :: "closure \<Rightarrow> jsstring \<Rightarrow> int \<Rightarrow> outcome \<Rightarrow> setter list" where
  "handleGenerate_resume c randomId now out =
     (case try_block c randomId now out of
        Inr newImage \<Rightarrow>
          [SetHistory (\<lambda>prev. newImage # prev), SetSelectedImage (Some newImage), SetPrompt []]
      | Inl err \<Rightarrow> [SetError (Some (error_text err))])
     @ [SetIsGenerating False]"

section \<open>deleteImage, downloadImage and the inline handlers\<close>

text \<open>
  \<open>deleteImage\<close> (lines 113 to 116). The function reads \<open>selectedImage\<close> from its
  closure: \<open>s\<close> is the state of the render the function belongs to.
\<close>

definition deleteImage :: "AppState \<Rightarrow> jsstring \<Rightarrow> setter list" where
  "deleteImage s ident =
     SetHistory (filter (\<lambda>img. img_id img \<noteq> ident))
     # (case selectedImage s of
          Some sel \<Rightarrow> if img_id sel = ident then [SetSelectedImage None] else []
        | None \<Rightarrow> [])"

text \<open>
  \<open>downloadImage\<close> (lines 118 to 125) calls no setter. Its effect is the click on a link
  element attached to the document: the browser saves what \<open>href\<close> refers to, under the
  name of the \<open>download\<close> attribute.
\<close>

record SaveRequest =
  href :: jsstring
  download :: jsstring

definition downloadImage :: "jsstring \<Rightarrow> jsstring \<Rightarrow> setter list \<times> SaveRequest list" where
  "downloadImage u filename = ([], [\<lparr>href = u, download = filename @ lit ''.png''\<rparr>])"

text \<open>
  The handler of a thumbnail of the gallery (line 356), \<open>() => setSelectedImage(img)\<close>:
  the operation the specification calls selectImage. The gallery renders one thumbnail
  for each entry of \<open>history\<close> (line 352), so \<open>img\<close> is an entry of it.
\<close>

definition selectImage :: "GeneratedImage \<Rightarrow> setter list" where
  "selectImage img = [SetSelectedImage (Some img)]"

section \<open>The component as a transition system\<close>

text \<open>
  Besides the state variables, a session has the client reference \<open>aiRef\<close>, the
  invocations of \<open>handleGenerate\<close> that wait for their answer, each with its closure, and
  the states of the earlier renders, the latest first. The preview and its overlay
  buttons are children of \<open>AnimatePresence\<close> with \<open>mode="wait"\<close> (lines 284 to 312),
  which keeps a preview that is being replaced on screen until its exit animation ends,
  with the handlers of the render it comes from: a click on an overlay button can run
  \<open>deleteImage\<close> or \<open>downloadImage\<close> as an earlier render closed over it, on the state
  of the moment.
\<close>

record Session =
  app :: AppState
  aiRef :: "jsstring option"
  inFlight :: "closure list"
  renders :: "AppState list"

text \<open>
  The first render and the mount effect (lines 54 to 58): the client is created when
  \<open>process.env.GEMINI_API_KEY\<close> is truthy.
\<close>

definition mount :: "jsstring option \<Rightarrow> Session" where
  "mount GEMINI_API_KEY =
     \<lparr>app = initialState,
      aiRef = (case GEMINI_API_KEY of
                 None \<Rightarrow> None
               | Some k \<Rightarrow> if truthy k then Some k else None),
      inFlight = [],
      renders = []\<rparr>"

text \<open>The component renders again with a new state; the render it leaves is an earlier one.\<close>

definition rerender :: "Session \<Rightarrow> AppState \<Rightarrow> Session" where
  "rerender c s = c\<lparr>app := s, renders := app c # renders c\<rparr>"

text \<open>
  The renders whose preview can be the one on screen: the current render, and any
  earlier one. Which of the earlier previews is still on screen depends on the timing
  of the animations, so none of them is excluded.
\<close>

definition on_screen :: "Session \<Rightarrow> AppState list" where
  "on_screen c = app c # renders c"

text \<open>The \<open>disabled\<close> attribute of the trigger (line 236).\<close>

definition generate_disabled :: "AppState \<Rightarrow> bool" where
  "generate_disabled s = (isGenerating s \<or> \<not> truthy (trim (prompt s)))"

definition SURPRISE_PROMPT :: jsstring where
  "SURPRISE_PROMPT = lit ''A surreal landscape where mountains are made of crystal and the sky is a deep violet with two moons''"

text \<open>
  What can happen to a session: the events the markup binds a handler to, and the
  settling of a request in flight (the \<open>k\<close>-th one) with its outcome and with the values
  \<open>Math.random\<close> and \<open>Date.now\<close> give the continuation. A click on an overlay button
  names the render whose preview is clicked, counted back from the current one, which
  is number 0.
\<close>

datatype event =
    ChangePrompt jsstring
  | ClickSurprise
  | ClickAspectRatio jsstring
  | ClickGenerate
  | Settle nat outcome jsstring int
  | ClickThumbnail nat
  | ClickDelete nat
  | ClickDownload nat

text \<open>
  One event. The result is \<open>None\<close> when the event cannot occur in that session: a click
  on the disabled trigger, on a thumbnail that is not rendered, on an overlay button of
  a render that does not exist or has no preview, on an aspect ratio that is not
  offered, or the answer to a request that is not in flight. The handlers of the
  overlay buttons (lines 302 and 308) read \<open>selectedImage\<close> from the render they belong
  to; the setter calls act on the current state.
\<close>

fun step :: "Session \<Rightarrow> event \<Rightarrow> Session option" where
  "step c (ChangePrompt v) = Some (rerender c (apply_setters (app c) [SetPrompt v]))"
| "step c ClickSurprise = Some (rerender c (apply_setters (app c) [SetPrompt SURPRISE_PROMPT]))"
| "step c (ClickAspectRatio v) =
     (if v \<in> set ASPECT_RATIOS
      then Some (rerender c (apply_setters (app c) [SetAspectRatio v]))
      else None)"
| "step c ClickGenerate =
     (if generate_disabled (app c) then None
      else case handleGenerate_begin (aiRef c) (app c) of
        (q, None) \<Rightarrow> Some (rerender c (apply_setters (app c) q))
      | (q, Some (request, cl)) \<Rightarrow>
          Some ((rerender c (apply_setters (app c) q))\<lparr>inFlight := inFlight c @ [cl]\<rparr>))"
| "step c (Settle k out randomId now) =
     (if k < length (inFlight c)
      then Some ((rerender c (apply_setters (app c)
                    (handleGenerate_resume (inFlight c ! k) randomId now out)))
                 \<lparr>inFlight := take k (inFlight c) @ drop (Suc k) (inFlight c)\<rparr>)
      else None)"
| "step c (ClickThumbnail i) =
     (if i < length (history (app c))
      then Some (rerender c (apply_setters (app c) (selectImage (history (app c) ! i))))
      else None)"
| "step c (ClickDelete n) =
     (if n < length (on_screen c)
      then (case selectedImage (on_screen c ! n) of
              None \<Rightarrow> None
            | Some sel \<Rightarrow>
                Some (rerender c (apply_setters (app c)
                        (deleteImage (on_screen c ! n) (img_id sel)))))
      else None)"
| "step c (ClickDownload n) =
     (if n < length (on_screen c)
      then (case selectedImage (on_screen c ! n) of
              None \<Rightarrow> None
            | Some sel \<Rightarrow>
                Some (rerender c (apply_setters (app c)
                        (fst (downloadImage (url sel) (lit ''lumina-'' @ img_id sel))))))
      else None)"

fun run :: "Session \<Rightarrow> event list \<Rightarrow> Session option" where
  "run c [] = Some c"
| "run c (e # es) = (case step c e of None \<Rightarrow> None | Some c' \<Rightarrow> run c' es)"

text \<open>
  The images an event creates: the one the \<open>try\<close> block builds when a request settles
  with an inline payload. \<open>insertions\<close> lists the images a run creates, the latest first.
\<close>

definition created :: "Session \<Rightarrow> event \<Rightarrow> GeneratedImage list" where
  "created c e =
     (case e of
        Settle k out randomId now \<Rightarrow>
          (if k < length (inFlight c)
           then (case try_block (inFlight c ! k) randomId now out of
                   Inr newImage \<Rightarrow> [newImage]
                 | Inl err \<Rightarrow> [])
           else [])
      | _ \<Rightarrow> [])"

fun insertions :: "Session \<Rightarrow> event list \<Rightarrow> GeneratedImage list" where
  "insertions c [] = []"
| "insertions c (e # es) =
     (case step c e of None \<Rightarrow> [] | Some c' \<Rightarrow> insertions c' es @ created c e)"

text \<open>The selection, when there is one, carries the id of an entry of the history.\<close>

definition selection_in_history :: "AppState \<Rightarrow> bool" where
  "selection_in_history s =
     (case selectedImage s of
        None \<Rightarrow> True
      | Some sel \<Rightarrow> img_id sel \<in> img_id ` set (history s))"

section \<open>Auxiliary facts\<close>

lemma DATA_URI_PREFIX_nonempty: "DATA_URI_PREFIX \<noteq> []"
  by (simp add: DATA_URI_PREFIX_def lit_def)

lemma NO_IMAGE_ERROR_nonempty: "NO_IMAGE_ERROR \<noteq> []"
  by (simp add: NO_IMAGE_ERROR_def lit_def)

lemma trim_empty_iff: "trim s = [] \<longleftrightarrow> (\<forall>ch \<in> set s. isWhiteSpace ch)"
proof
  assume "trim s = []"
  then have *: "\<forall>ch \<in> set (dropWhile isWhiteSpace s). isWhiteSpace ch"
    by (simp add: trim_def)
  show "\<forall>ch \<in> set s. isWhiteSpace ch"
  proof (cases "dropWhile isWhiteSpace s")
    case Nil
    then show ?thesis by simp
  next
    case (Cons y ys)
    then have "\<not> isWhiteSpace y"
      using hd_dropWhile [of isWhiteSpace s] by simp
    with * Cons show ?thesis by simp
  qed
next
  assume "\<forall>ch \<in> set s. isWhiteSpace ch"
  then have d: "dropWhile isWhiteSpace s = []"
    by simp
  show "trim s = []"
    unfolding trim_def d by simp
qed

lemma scan_parts_none:
  "\<forall>p \<in> set ps. inlineData p = None \<Longrightarrow> scan_parts acc ps = acc"
  by (induction ps) auto

lemma scan_parts_first:
  "\<forall>q \<in> set pre. inlineData q = None \<Longrightarrow> inlineData p = Some blob \<Longrightarrow>
   scan_parts acc (pre @ p # post) = DATA_URI_PREFIX @ template (data blob)"
  by (induction pre) auto

lemma resume_state:
  "apply_setters s (handleGenerate_resume c randomId now out) =
     (case try_block c randomId now out of
        Inr newImage \<Rightarrow>
          s\<lparr>history := newImage # history s, selectedImage := Some newImage,
            prompt := [], isGenerating := False\<rparr>
      | Inl err \<Rightarrow> s\<lparr>error := Some (error_text err), isGenerating := False\<rparr>)"
  by (simp add: apply_setters_def handleGenerate_resume_def split: sum.split)

lemma delete_state:
  "apply_setters s (deleteImage s ident) =
     s\<lparr>history := filter (\<lambda>img. img_id img \<noteq> ident) (history s),
       selectedImage :=
         (case selectedImage s of
            None \<Rightarrow> None
          | Some sel \<Rightarrow> if img_id sel = ident then None else Some sel)\<rparr>"
  by (cases "selectedImage s") (simp_all add: apply_setters_def deleteImage_def)

lemma red_circle_truthy: "truthy (trim (lit ''a red circle''))"
  by (simp add: truthy_def trim_def lit_def isWhiteSpace_def)

section \<open>Blank prompts and the missing credential\<close>

text \<open>
  Claim C9. When the prompt is empty or consists only of whitespace, \<open>handleGenerate\<close>
  returns at line 61: it issues no request and calls no setter, so the state it leaves
  is the state it found, in all six variables, whatever the credential.
\<close>

theorem generate_blank_prompt_no_change:
  "\<forall>ch \<in> set (prompt s). isWhiteSpace ch \<Longrightarrow>
   handleGenerate_begin ai s = ([], None)
   \<and> states_after s (fst (handleGenerate_begin ai s)) = []
   \<and> apply_setters s (fst (handleGenerate_begin ai s)) = s"
proof -
  assume "\<forall>ch \<in> set (prompt s). isWhiteSpace ch"
  then have "trim (prompt s) = []"
    by (simp only: trim_empty_iff)
  then have "handleGenerate_begin ai s = ([], None)"
    by (simp add: handleGenerate_begin_def truthy_def)
  then show ?thesis
    by (simp add: apply_setters_def)
qed

text \<open>The prompt of a space, a tab and an ideographic space, with a credential.\<close>

theorem generate_blank_prompt_no_change_witness:
  "handleGenerate_begin (Some (lit ''key'')) (initialState\<lparr>prompt := [0x0020, 0x0009, 0x3000]\<rparr>)
     = ([], None)
   \<and> states_after (initialState\<lparr>prompt := [0x0020, 0x0009, 0x3000]\<rparr>)
        (fst (handleGenerate_begin (Some (lit ''key''))
               (initialState\<lparr>prompt := [0x0020, 0x0009, 0x3000]\<rparr>)))
     = []
   \<and> apply_setters (initialState\<lparr>prompt := [0x0020, 0x0009, 0x3000]\<rparr>)
        (fst (handleGenerate_begin (Some (lit ''key''))
               (initialState\<lparr>prompt := [0x0020, 0x0009, 0x3000]\<rparr>)))
     = initialState\<lparr>prompt := [0x0020, 0x0009, 0x3000]\<rparr>"
proof -
  have blank: "\<forall>ch \<in> set (prompt (initialState\<lparr>prompt := [0x0020, 0x0009, 0x3000]\<rparr>)).
                 isWhiteSpace ch"
    by (simp add: isWhiteSpace_def)
  show ?thesis
    by (rule generate_blank_prompt_no_change [OF blank])
qed

text \<open>
  Claim C4, as stated: every invocation without a credential produces the configuration
  error. The check of the prompt (line 61) comes before the check of the client
  (line 62), so an invocation with a blank prompt and no credential returns without
  setting the error: in the initial state, whose prompt is empty, the error stays
  \<open>null\<close>.
\<close>

theorem generate_without_credential_blank_prompt:
  "error (apply_setters initialState (fst (handleGenerate_begin None initialState)))
     \<noteq> Some API_KEY_ERROR"
  by (simp add: handleGenerate_begin_def apply_setters_def initialState_def trim_def truthy_def)

text \<open>
  Claim C4, amended. Without a credential, every invocation of \<open>handleGenerate\<close> issues
  no request and never calls \<open>setIsGenerating\<close>, so \<open>isGenerating\<close> keeps its value
  throughout; and when the prompt is not empty after trimming, the only setter call is
  the one that sets the error to the fixed configuration message. When the prompt is
  blank, the invocation calls no setter and the error keeps its value.
\<close>

theorem generate_without_credential:
  "snd (handleGenerate_begin None s) = None
   \<and> (\<forall>b. SetIsGenerating b \<notin> set (fst (handleGenerate_begin None s)))
   \<and> (\<forall>s' \<in> set (states_after s (fst (handleGenerate_begin None s))).
        isGenerating s' = isGenerating s)
   \<and> (truthy (trim (prompt s)) \<longrightarrow>
        handleGenerate_begin None s = ([SetError (Some API_KEY_ERROR)], None)
        \<and> error (apply_setters s (fst (handleGenerate_begin None s)))
            = Some (lit ''API Key not found. Please check your environment variables.''))
   \<and> (\<not> truthy (trim (prompt s)) \<longrightarrow>
        handleGenerate_begin None s = ([], None)
        \<and> error (apply_setters s (fst (handleGenerate_begin None s))) = error s)"
  by (simp add: handleGenerate_begin_def apply_setters_def API_KEY_ERROR_def)

theorem generate_without_credential_witness:
  "truthy (trim (lit ''a red circle''))
   \<and> error (apply_setters (initialState\<lparr>prompt := lit ''a red circle''\<rparr>)
        (fst (handleGenerate_begin None (initialState\<lparr>prompt := lit ''a red circle''\<rparr>))))
     = Some (lit ''API Key not found. Please check your environment variables.'')
   \<and> snd (handleGenerate_begin None (initialState\<lparr>prompt := lit ''a red circle''\<rparr>)) = None"
proof -
  have nonblank: "truthy (trim (prompt (initialState\<lparr>prompt := lit ''a red circle''\<rparr>)))"
    using red_circle_truthy by simp
  with generate_without_credential [of "initialState\<lparr>prompt := lit ''a red circle''\<rparr>"]
  show ?thesis
    using red_circle_truthy by blast
qed

lemma scan_parts_found:
  "\<exists>p \<in> set ps. inlineData p \<noteq> None \<Longrightarrow>
   \<exists>blob :: Blob. scan_parts acc ps = DATA_URI_PREFIX @ template (data blob)"
proof (induction ps)
  case Nil
  then show ?case by simp
next
  case (Cons a ps)
  show ?case
  proof (cases "inlineData a")
    case None
    with Cons show ?thesis by simp
  next
    case (Some b)
    then have "scan_parts acc (a # ps) = DATA_URI_PREFIX @ template (data b)"
      by simp
    then show ?thesis ..
  qed
qed

lemma begin_with_credential:
  "truthy (trim (prompt s)) \<Longrightarrow>
   handleGenerate_begin (Some client) s =
     ([SetIsGenerating True, SetError None],
      Some (\<lparr>model = lit ''gemini-2.5-flash-image'', contents_text = prompt s,
              config_aspectRatio = aspectRatio s\<rparr>,
            \<lparr>c_prompt = prompt s, c_aspectRatio = aspectRatio s\<rparr>))"
  by (simp add: handleGenerate_begin_def)

section \<open>A successful generation\<close>

text \<open>
  Claim C1. Let \<open>handleGenerate\<close> be invoked in a state \<open>s0\<close> whose prompt is not empty
  after trimming, with a client, and let the response carry an inline payload. Then the
  invocation issues a request for the prompt and the aspect ratio of \<open>s0\<close>, and when the
  response arrives, in whatever state \<open>s\<close> the session is by then, one new image with
  the prompt and the aspect ratio of \<open>s0\<close> is put in front of the history of \<open>s\<close>, that
  image becomes the selection, and the prompt becomes the empty string.
\<close>

theorem generate_success:
  assumes "truthy (trim (prompt s0))"
    and "\<exists>p \<in> set (response_parts response). inlineData p \<noteq> None"
  shows "\<exists>request c newImage.
     handleGenerate_begin (Some client) s0
       = ([SetIsGenerating True, SetError None], Some (request, c))
     \<and> contents_text request = prompt s0
     \<and> config_aspectRatio request = aspectRatio s0
     \<and> try_block c randomId now (Resolved response) = Inr newImage
     \<and> img_id newImage = randomId
     \<and> img_prompt newImage = prompt s0
     \<and> timestamp newImage = now
     \<and> img_aspectRatio newImage = aspectRatio s0
     \<and> history (apply_setters s (handleGenerate_resume c randomId now (Resolved response)))
         = newImage # history s
     \<and> selectedImage (apply_setters s (handleGenerate_resume c randomId now (Resolved response)))
         = Some newImage
     \<and> prompt (apply_setters s (handleGenerate_resume c randomId now (Resolved response)))
         = []"
proof -
  let ?c = "\<lparr>c_prompt = prompt s0, c_aspectRatio = aspectRatio s0\<rparr>"
  from assms(2) obtain blob :: Blob
    where u: "scan_parts [] (response_parts response) = DATA_URI_PREFIX @ template (data blob)"
    using scan_parts_found by blast
  let ?img = "\<lparr>img_id = randomId, url = DATA_URI_PREFIX @ template (data blob),
                img_prompt = prompt s0, timestamp = now, img_aspectRatio = aspectRatio s0\<rparr>"
  have t: "try_block ?c randomId now (Resolved response) = Inr ?img"
    using DATA_URI_PREFIX_nonempty by (simp add: try_block_def u truthy_def)
  show ?thesis
    using begin_with_credential [OF assms(1), of client] t
    by (simp add: resume_state)
qed

text \<open>
  The scenario of the specification: the prompt "a red circle", the aspect ratio 1:1,
  a response with one inline PNG payload.
\<close>

theorem generate_success_witness:
  "history (apply_setters
      (initialState\<lparr>prompt := lit ''a red circle'', isGenerating := True\<rparr>)
      (handleGenerate_resume \<lparr>c_prompt = lit ''a red circle'', c_aspectRatio = lit ''1:1''\<rparr>
         (lit ''k3x9q'') 1700000000000
         (Resolved \<lparr>candidates = Some [\<lparr>content = Some \<lparr>parts = Some
            [\<lparr>inlineData = Some \<lparr>data = Some (lit ''iVBORw0KGgo=''),
                                      mimeType = Some (lit ''image/png'')\<rparr>,
              part_text = None\<rparr>]\<rparr>\<rparr>]\<rparr>)))
   = [\<lparr>img_id = lit ''k3x9q'', url = lit ''data:image/png;base64,iVBORw0KGgo='',
       img_prompt = lit ''a red circle'', timestamp = 1700000000000,
       img_aspectRatio = lit ''1:1''\<rparr>]
   \<and> selectedImage (apply_setters
      (initialState\<lparr>prompt := lit ''a red circle'', isGenerating := True\<rparr>)
      (handleGenerate_resume \<lparr>c_prompt = lit ''a red circle'', c_aspectRatio = lit ''1:1''\<rparr>
         (lit ''k3x9q'') 1700000000000
         (Resolved \<lparr>candidates = Some [\<lparr>content = Some \<lparr>parts = Some
            [\<lparr>inlineData = Some \<lparr>data = Some (lit ''iVBORw0KGgo=''),
                                      mimeType = Some (lit ''image/png'')\<rparr>,
              part_text = None\<rparr>]\<rparr>\<rparr>]\<rparr>)))
   = Some \<lparr>img_id = lit ''k3x9q'', url = lit ''data:image/png;base64,iVBORw0KGgo='',
       img_prompt = lit ''a red circle'', timestamp = 1700000000000,
       img_aspectRatio = lit ''1:1''\<rparr>
   \<and> prompt (apply_setters
      (initialState\<lparr>prompt := lit ''a red circle'', isGenerating := True\<rparr>)
      (handleGenerate_resume \<lparr>c_prompt = lit ''a red circle'', c_aspectRatio = lit ''1:1''\<rparr>
         (lit ''k3x9q'') 1700000000000
         (Resolved \<lparr>candidates = Some [\<lparr>content = Some \<lparr>parts = Some
            [\<lparr>inlineData = Some \<lparr>data = Some (lit ''iVBORw0KGgo=''),
                                      mimeType = Some (lit ''image/png'')\<rparr>,
              part_text = None\<rparr>]\<rparr>\<rparr>]\<rparr>)))
   = []"
proof -
  let ?init = "initialState\<lparr>prompt := lit ''a red circle''\<rparr>"
  let ?cur = "initialState\<lparr>prompt := lit ''a red circle'', isGenerating := True\<rparr>"
  let ?r = "\<lparr>candidates = Some [\<lparr>content = Some \<lparr>parts = Some
            [\<lparr>inlineData = Some \<lparr>data = Some (lit ''iVBORw0KGgo=''),
                                      mimeType = Some (lit ''image/png'')\<rparr>,
              part_text = None\<rparr>]\<rparr>\<rparr>]\<rparr>"
  have h1: "truthy (trim (prompt ?init))"
    using red_circle_truthy by simp
  have h2: "\<exists>p \<in> set (response_parts ?r). inlineData p \<noteq> None"
    by (simp add: response_parts_def)
  from generate_success [OF h1 h2, of "lit ''key''" "lit ''k3x9q''" 1700000000000 ?cur]
  obtain request c newImage where
    b: "handleGenerate_begin (Some (lit ''key'')) ?init
          = ([SetIsGenerating True, SetError None], Some (request, c))"
    and t: "try_block c (lit ''k3x9q'') 1700000000000 (Resolved ?r) = Inr newImage"
    and h: "history (apply_setters ?cur
              (handleGenerate_resume c (lit ''k3x9q'') 1700000000000 (Resolved ?r)))
              = newImage # history ?cur"
    and s: "selectedImage (apply_setters ?cur
              (handleGenerate_resume c (lit ''k3x9q'') 1700000000000 (Resolved ?r)))
              = Some newImage"
    and p: "prompt (apply_setters ?cur
              (handleGenerate_resume c (lit ''k3x9q'') 1700000000000 (Resolved ?r)))
              = []"
    by blast
  from b have c: "c = \<lparr>c_prompt = lit ''a red circle'', c_aspectRatio = lit ''1:1''\<rparr>"
    by (simp add: handleGenerate_begin_def initialState_def split: if_splits)
  from t have n: "newImage = \<lparr>img_id = lit ''k3x9q'', url = lit ''data:image/png;base64,iVBORw0KGgo='',
       img_prompt = lit ''a red circle'', timestamp = 1700000000000,
       img_aspectRatio = lit ''1:1''\<rparr>"
    unfolding c
    by (simp add: try_block_def response_parts_def DATA_URI_PREFIX_def template_def lit_def
        truthy_def)
  from h s p show ?thesis
    unfolding c n by (simp add: initialState_def)
qed

section \<open>The first inline payload\<close>

text \<open>
  Claim C5. The content parts of a response are the ones the code reads (line 84), those
  of its first candidate. When one of them carries \<open>inlineData\<close>, the generation
  succeeds: the first such part in the order of the list decides, whatever comes after
  it, and the url of the new image is the PNG data URI of its payload, that is
  \<open>data:image/png;base64,\<close> followed by the \<open>data\<close> of the part. No error is set.
\<close>

theorem generate_decodes_first_inline_payload:
  assumes "response_parts response = pre @ p # post"
    and "\<forall>q \<in> set pre. inlineData q = None"
    and "inlineData p = Some blob"
  shows "\<exists>newImage.
       try_block c randomId now (Resolved response) = Inr newImage
     \<and> url newImage = lit ''data:image/png;base64,'' @ template (data blob)
     \<and> (\<forall>d. data blob = Some d \<longrightarrow> url newImage = lit ''data:image/png;base64,'' @ d)
     \<and> history (apply_setters s (handleGenerate_resume c randomId now (Resolved response)))
         = newImage # history s
     \<and> selectedImage (apply_setters s (handleGenerate_resume c randomId now (Resolved response)))
         = Some newImage
     \<and> error (apply_setters s (handleGenerate_resume c randomId now (Resolved response)))
         = error s"
proof -
  have u: "scan_parts [] (response_parts response) = DATA_URI_PREFIX @ template (data blob)"
    unfolding assms(1) by (rule scan_parts_first [OF assms(2) assms(3)])
  then have t: "try_block c randomId now (Resolved response)
       = Inr \<lparr>img_id = randomId, url = DATA_URI_PREFIX @ template (data blob),
              img_prompt = c_prompt c, timestamp = now, img_aspectRatio = c_aspectRatio c\<rparr>"
    using DATA_URI_PREFIX_nonempty by (simp add: try_block_def truthy_def)
  show ?thesis
    unfolding resume_state t
    by (simp add: DATA_URI_PREFIX_def template_def)
qed

text \<open>A text part, then two inline payloads: the first of the two is the one decoded.\<close>

theorem generate_decodes_first_inline_payload_witness:
  "map url (history (apply_setters initialState
      (handleGenerate_resume \<lparr>c_prompt = lit ''a red circle'', c_aspectRatio = lit ''1:1''\<rparr>
         (lit ''k3x9q'') 1700000000000
         (Resolved \<lparr>candidates = Some [\<lparr>content = Some \<lparr>parts = Some
            [\<lparr>inlineData = None, part_text = Some (lit ''Here is your image'')\<rparr>,
             \<lparr>inlineData = Some \<lparr>data = Some (lit ''AAAA''), mimeType = None\<rparr>,
              part_text = None\<rparr>,
             \<lparr>inlineData = Some \<lparr>data = Some (lit ''BBBB''), mimeType = None\<rparr>,
              part_text = None\<rparr>]\<rparr>\<rparr>]\<rparr>))))
   = [lit ''data:image/png;base64,AAAA'']"
proof -
  let ?t = "\<lparr>inlineData = None, part_text = Some (lit ''Here is your image'')\<rparr>"
  let ?a = "\<lparr>inlineData = Some \<lparr>data = Some (lit ''AAAA''), mimeType = None\<rparr>,
              part_text = None\<rparr>"
  let ?b = "\<lparr>inlineData = Some \<lparr>data = Some (lit ''BBBB''), mimeType = None\<rparr>,
              part_text = None\<rparr>"
  let ?r = "\<lparr>candidates = Some [\<lparr>content = Some \<lparr>parts = Some [?t, ?a, ?b]\<rparr>\<rparr>]\<rparr>"
  have h1: "response_parts ?r = [?t] @ ?a # [?b]"
    by (simp add: response_parts_def)
  have h2: "\<forall>q \<in> set [?t]. inlineData q = None"
    by simp
  have h3: "inlineData ?a = Some \<lparr>data = Some (lit ''AAAA''), mimeType = None\<rparr>"
    by simp
  from generate_decodes_first_inline_payload [OF h1 h2 h3,
      of "\<lparr>c_prompt = lit ''a red circle'', c_aspectRatio = lit ''1:1''\<rparr>"
         "lit ''k3x9q''" 1700000000000 initialState]
  obtain newImage where
    u: "url newImage = lit ''data:image/png;base64,''
          @ template (data \<lparr>data = Some (lit ''AAAA''), mimeType = None\<rparr>)"
    and h: "history (apply_setters initialState
      (handleGenerate_resume \<lparr>c_prompt = lit ''a red circle'', c_aspectRatio = lit ''1:1''\<rparr>
         (lit ''k3x9q'') 1700000000000 (Resolved ?r))) = newImage # history initialState"
    by blast
  from h u show ?thesis
    by (simp add: template_def initialState_def lit_def)
qed

section \<open>Failures\<close>

text \<open>
  Claim C3. When no content part of the response carries an inline payload, the error
  becomes "No image data returned from the model." and the history is the one the
  answer found. When the request raises a fault, the error becomes the message of the
  fault when it has one that is not empty, and the fallback text otherwise, and again
  the history is the one the answer found. The invocation itself, before the request,
  does not change the history either.
\<close>

theorem generate_failure:
  "((\<forall>p \<in> set (response_parts response). inlineData p = None) \<longrightarrow>
      error (apply_setters s (handleGenerate_resume c randomId now (Resolved response)))
        = Some (lit ''No image data returned from the model.'')
      \<and> history (apply_setters s (handleGenerate_resume c randomId now (Resolved response)))
        = history s)
   \<and> (message err = Some m \<and> m \<noteq> [] \<longrightarrow>
        error (apply_setters s (handleGenerate_resume c randomId now (Rejected err))) = Some m)
   \<and> (message err = None \<or> message err = Some [] \<longrightarrow>
        error (apply_setters s (handleGenerate_resume c randomId now (Rejected err)))
          = Some (lit ''An unexpected error occurred during generation.''))
   \<and> history (apply_setters s (handleGenerate_resume c randomId now (Rejected err))) = history s
   \<and> history (apply_setters s (fst (handleGenerate_begin ai s))) = history s"
proof -
  have a: "(\<forall>p \<in> set (response_parts response). inlineData p = None) \<longrightarrow>
      try_block c randomId now (Resolved response) = Inl \<lparr>message = Some NO_IMAGE_ERROR\<rparr>"
    by (simp add: try_block_def scan_parts_none truthy_def)
  have b: "try_block c randomId now (Rejected err) = Inl err"
    by (simp add: try_block_def)
  have e: "error_text \<lparr>message = Some NO_IMAGE_ERROR\<rparr> = lit ''No image data returned from the model.''"
    using NO_IMAGE_ERROR_nonempty by (simp add: error_text_def truthy_def NO_IMAGE_ERROR_def)
  have g: "history (apply_setters s (fst (handleGenerate_begin ai s))) = history s"
    by (simp add: handleGenerate_begin_def apply_setters_def split: option.split)
  show ?thesis
    using a e g
    by (auto simp add: resume_state b error_text_def truthy_def FALLBACK_ERROR_def)
qed

text \<open>
  The scenarios of the specification: a response with zero content parts, and a fault
  with the message "rate limited".
\<close>

theorem generate_failure_witness:
  "error (apply_setters (initialState\<lparr>isGenerating := True\<rparr>)
      (handleGenerate_resume \<lparr>c_prompt = lit ''a red circle'', c_aspectRatio = lit ''1:1''\<rparr>
         (lit ''k3x9q'') 1700000000000
         (Resolved \<lparr>candidates = Some [\<lparr>content = Some \<lparr>parts = Some []\<rparr>\<rparr>]\<rparr>)))
     = Some (lit ''No image data returned from the model.'')
   \<and> error (apply_setters (initialState\<lparr>isGenerating := True\<rparr>)
      (handleGenerate_resume \<lparr>c_prompt = lit ''a red circle'', c_aspectRatio = lit ''1:1''\<rparr>
         (lit ''k3x9q'') 1700000000000
         (Rejected \<lparr>message = Some (lit ''rate limited'')\<rparr>)))
     = Some (lit ''rate limited'')"
proof -
  let ?r = "\<lparr>candidates = Some [\<lparr>content = Some \<lparr>parts = Some []\<rparr>\<rparr>]\<rparr>"
  have h1: "\<forall>p \<in> set (response_parts ?r). inlineData p = None"
    by (simp add: response_parts_def)
  have h2: "message \<lparr>message = Some (lit ''rate limited'')\<rparr> = Some (lit ''rate limited'')
            \<and> lit ''rate limited'' \<noteq> []"
    by (simp add: lit_def)
  from generate_failure [of ?r "initialState\<lparr>isGenerating := True\<rparr>"
      "\<lparr>c_prompt = lit ''a red circle'', c_aspectRatio = lit ''1:1''\<rparr>"
      "lit ''k3x9q''" 1700000000000 "\<lparr>message = Some (lit ''rate limited'')\<rparr>"
      "lit ''rate limited''"] h1 h2
  show ?thesis
    by blast
qed

section \<open>Deleting an image\<close>



section \<open>Downloading an image\<close>

text \<open>
  Claim C10, as stated: the image is saved under the given filename. The name of the
  \<open>download\<close> attribute is the filename followed by ".png" (line 121): for the filename
  "lumina-k3x9q" it is not that filename.
\<close>

theorem downloadImage_name_has_extension:
  "snd (downloadImage (lit ''data:image/png;base64,AAAA'') (lit ''lumina-k3x9q''))
     \<noteq> [\<lparr>href = lit ''data:image/png;base64,AAAA'', download = lit ''lumina-k3x9q''\<rparr>]"
  by (simp add: downloadImage_def lit_def)

text \<open>
  Claim C10, amended. \<open>downloadImage(url, filename)\<close> triggers one save, of the data the
  url refers to, under the name filename followed by ".png", and calls no setter: the
  six state variables keep their values.
\<close>

theorem downloadImage_frame:
  "snd (downloadImage u filename) = [\<lparr>href = u, download = filename @ lit ''.png''\<rparr>]
   \<and> fst (downloadImage u filename) = []
   \<and> apply_setters s (fst (downloadImage u filename)) = s"
  by (simp add: downloadImage_def apply_setters_def)

section \<open>Reachable sessions\<close>

lemma begin_state:
  "apply_setters s (fst (handleGenerate_begin ai s)) =
     (if \<not> truthy (trim (prompt s)) then s
      else case ai of
        None \<Rightarrow> s\<lparr>error := Some API_KEY_ERROR\<rparr>
      | Some client \<Rightarrow> s\<lparr>isGenerating := True, error := None\<rparr>)"
  by (simp add: handleGenerate_begin_def apply_setters_def split: option.split)


text \<open>\<open>deleteImage\<close> as the render \<open>r\<close> closed over it, run in the state \<open>s\<close>.\<close>

lemma delete_closure_state:
  "apply_setters s (deleteImage r ident) =
     s\<lparr>history := filter (\<lambda>img. img_id img \<noteq> ident) (history s),
       selectedImage :=
         (case selectedImage r of
            None \<Rightarrow> selectedImage s
          | Some sel \<Rightarrow> if img_id sel = ident then None else selectedImage s)\<rparr>"
  by (cases "selectedImage r") (simp_all add: apply_setters_def deleteImage_def)





text \<open>The history along a run: every step puts the image it creates in front, or deletes.\<close>

lemma step_history:
  assumes "step c e = Some c'"
  shows "subseq (history (app c')) (created c e @ history (app c))"
proof (cases e)
  case (Settle k out randomId now)
  with assms show ?thesis
    by (auto simp add: resume_state created_def rerender_def split: if_splits sum.splits)
next
  case (ClickDelete n)
  with assms show ?thesis
    by (auto simp add: delete_closure_state created_def rerender_def
        split: if_splits option.splits)
next
  case ClickGenerate
  have "history (apply_setters (app c) (fst (handleGenerate_begin (aiRef c) (app c))))
          = history (app c)"
    by (simp add: begin_state split: option.split)
  with assms ClickGenerate show ?thesis
    by (auto simp add: created_def rerender_def split: if_splits option.splits prod.splits)
qed (use assms in \<open>auto simp add: apply_setters_def selectImage_def downloadImage_def created_def
        rerender_def split: if_splits option.splits\<close>)

lemma run_history:
  "run c evs = Some c' \<Longrightarrow> subseq (history (app c')) (insertions c evs @ history (app c))"
proof (induction evs arbitrary: c)
  case Nil
  then show ?case by simp
next
  case (Cons e evs)
  from Cons.prems obtain c1 where s: "step c e = Some c1" and r: "run c1 evs = Some c'"
    by (auto split: option.splits)
  have "subseq (insertions c1 evs @ history (app c1))
               (insertions c1 evs @ created c e @ history (app c))"
    using step_history [OF s] by (simp add: subseq_append')
  with Cons.IH [OF r]
  have "subseq (history (app c')) (insertions c1 evs @ created c e @ history (app c))"
    by (rule subseq_order.order_trans)
  with s show ?case by simp
qed

text \<open>The selection along a run.\<close>

lemma resume_selection:
  "selection_in_history s \<Longrightarrow>
   selection_in_history (apply_setters s (handleGenerate_resume cl randomId now out))"
  by (simp add: resume_state selection_in_history_def split: sum.split option.splits)

lemma begin_selection:
  "selection_in_history s \<Longrightarrow>
   selection_in_history (apply_setters s (fst (handleGenerate_begin ai s)))"
  by (simp add: begin_state selection_in_history_def split: option.splits)

lemma select_selection:
  "img \<in> set (history s) \<Longrightarrow> selection_in_history (apply_setters s (selectImage img))"
  by (simp add: selectImage_def apply_setters_def selection_in_history_def)

lemma delete_selection:
  "selection_in_history s \<Longrightarrow> selection_in_history (apply_setters s (deleteImage s ident))"
  by (auto simp add: delete_state selection_in_history_def split: option.splits)

lemma overlay_delete_selection:
  "selectedImage r = Some sel \<Longrightarrow>
   selectedImage (apply_setters s (deleteImage r (img_id sel))) = None
   \<and> selection_in_history (apply_setters s (deleteImage r (img_id sel)))"
  by (simp add: delete_closure_state selection_in_history_def)

lemma step_selection:
  assumes "selection_in_history (app c)" and "step c e = Some c'"
  shows "selection_in_history (app c')"
proof (cases e)
  case (Settle k out randomId now)
  with assms resume_selection show ?thesis
    by (auto simp add: rerender_def split: if_splits)
next
  case (ClickDelete n)
  with assms overlay_delete_selection show ?thesis
    by (auto simp add: rerender_def split: if_splits option.splits)
next
  case ClickGenerate
  with assms begin_selection [of "app c" "aiRef c"] show ?thesis
    by (auto simp add: rerender_def split: if_splits option.splits prod.splits)
next
  case (ClickThumbnail i)
  with assms select_selection show ?thesis
    by (auto simp add: rerender_def split: if_splits)
qed (use assms in \<open>auto simp add: apply_setters_def downloadImage_def selection_in_history_def
        rerender_def split: if_splits option.splits\<close>)

lemma run_selection:
  "selection_in_history (app c) \<Longrightarrow> run c evs = Some c' \<Longrightarrow> selection_in_history (app c')"
proof (induction evs arbitrary: c)
  case Nil
  then show ?case by simp
next
  case (Cons e evs)
  from Cons.prems(2) obtain c1 where s: "step c e = Some c1" and r: "run c1 evs = Some c'"
    by (auto split: option.splits)
  from Cons.IH [OF step_selection [OF Cons.prems(1) s] r] show ?case .
qed

text \<open>
  Example runs of a session with a credential, with the state and the requests in
  flight they end in.
\<close>

lemmas run_defs = mount_def initialState_def generate_disabled_def handleGenerate_begin_def
  apply_setters_def truthy_def trim_def lit_def isWhiteSpace_def handleGenerate_resume_def
  try_block_def response_parts_def DATA_URI_PREFIX_def template_def selectImage_def
  deleteImage_def error_text_def ASPECT_RATIOS_def created_def rerender_def on_screen_def



lemma example_run_two_images:
  "map_option app (run (mount (Some (lit ''key'')))
     [ChangePrompt (lit ''cat''), ClickGenerate,
      Settle 0 (Resolved \<lparr>candidates = Some [\<lparr>content = Some \<lparr>parts = Some
         [\<lparr>inlineData = Some \<lparr>data = Some (lit ''AAAA''), mimeType = None\<rparr>,
           part_text = None\<rparr>]\<rparr>\<rparr>]\<rparr>) (lit ''a1'') 100,
      ChangePrompt (lit ''dog''), ClickAspectRatio (lit ''4:3''), ClickGenerate,
      Settle 0 (Resolved \<lparr>candidates = Some [\<lparr>content = Some \<lparr>parts = Some
         [\<lparr>inlineData = Some \<lparr>data = Some (lit ''BBBB''), mimeType = None\<rparr>,
           part_text = None\<rparr>]\<rparr>\<rparr>]\<rparr>) (lit ''b2'') 200,
      ClickThumbnail 1])
   = Some \<lparr>prompt = [], isGenerating = False, aspectRatio = lit ''4:3'',
        history =
          [\<lparr>img_id = lit ''b2'', url = lit ''data:image/png;base64,BBBB'',
            img_prompt = lit ''dog'', timestamp = 200, img_aspectRatio = lit ''4:3''\<rparr>,
           \<lparr>img_id = lit ''a1'', url = lit ''data:image/png;base64,AAAA'',
            img_prompt = lit ''cat'', timestamp = 100, img_aspectRatio = lit ''1:1''\<rparr>],
        selectedImage =
          Some \<lparr>img_id = lit ''a1'', url = lit ''data:image/png;base64,AAAA'',
            img_prompt = lit ''cat'', timestamp = 100, img_aspectRatio = lit ''1:1''\<rparr>,
        error = None\<rparr>"
  by (simp add: run_defs)

lemma example_run_delete_current:
  "map_option app (run (mount (Some (lit ''key'')))
     [ChangePrompt (lit ''cat''), ClickGenerate,
      Settle 0 (Resolved \<lparr>candidates = Some [\<lparr>content = Some \<lparr>parts = Some
         [\<lparr>inlineData = Some \<lparr>data = Some (lit ''AAAA''), mimeType = None\<rparr>,
           part_text = None\<rparr>]\<rparr>\<rparr>]\<rparr>) (lit ''a1'') 100,
      ChangePrompt (lit ''dog''), ClickAspectRatio (lit ''4:3''), ClickGenerate,
      Settle 0 (Resolved \<lparr>candidates = Some [\<lparr>content = Some \<lparr>parts = Some
         [\<lparr>inlineData = Some \<lparr>data = Some (lit ''BBBB''), mimeType = None\<rparr>,
           part_text = None\<rparr>]\<rparr>\<rparr>]\<rparr>) (lit ''b2'') 200,
      ClickThumbnail 1, ClickDelete 0])
   = Some \<lparr>prompt = [], isGenerating = False, aspectRatio = lit ''4:3'',
        history =
          [\<lparr>img_id = lit ''b2'', url = lit ''data:image/png;base64,BBBB'',
            img_prompt = lit ''dog'', timestamp = 200, img_aspectRatio = lit ''4:3''\<rparr>],
        selectedImage = None,
        error = None\<rparr>"
  by (simp add: run_defs)

lemma example_run_delete_earlier:
  "map_option app (run (mount (Some (lit ''key'')))
     [ChangePrompt (lit ''cat''), ClickGenerate,
      Settle 0 (Resolved \<lparr>candidates = Some [\<lparr>content = Some \<lparr>parts = Some
         [\<lparr>inlineData = Some \<lparr>data = Some (lit ''AAAA''), mimeType = None\<rparr>,
           part_text = None\<rparr>]\<rparr>\<rparr>]\<rparr>) (lit ''a1'') 100,
      ChangePrompt (lit ''dog''), ClickAspectRatio (lit ''4:3''), ClickGenerate,
      Settle 0 (Resolved \<lparr>candidates = Some [\<lparr>content = Some \<lparr>parts = Some
         [\<lparr>inlineData = Some \<lparr>data = Some (lit ''BBBB''), mimeType = None\<rparr>,
           part_text = None\<rparr>]\<rparr>\<rparr>]\<rparr>) (lit ''b2'') 200,
      ClickThumbnail 1, ClickDelete 1])
   = Some \<lparr>prompt = [], isGenerating = False, aspectRatio = lit ''4:3'',
        history =
          [\<lparr>img_id = lit ''a1'', url = lit ''data:image/png;base64,AAAA'',
            img_prompt = lit ''cat'', timestamp = 100, img_aspectRatio = lit ''1:1''\<rparr>],
        selectedImage = None,
        error = None\<rparr>"
  by (simp add: run_defs)

lemma example_insertions_current:
  "insertions (mount (Some (lit ''key'')))
     [ChangePrompt (lit ''cat''), ClickGenerate,
      Settle 0 (Resolved \<lparr>candidates = Some [\<lparr>content = Some \<lparr>parts = Some
         [\<lparr>inlineData = Some \<lparr>data = Some (lit ''AAAA''), mimeType = None\<rparr>,
           part_text = None\<rparr>]\<rparr>\<rparr>]\<rparr>) (lit ''a1'') 100,
      ChangePrompt (lit ''dog''), ClickAspectRatio (lit ''4:3''), ClickGenerate,
      Settle 0 (Resolved \<lparr>candidates = Some [\<lparr>content = Some \<lparr>parts = Some
         [\<lparr>inlineData = Some \<lparr>data = Some (lit ''BBBB''), mimeType = None\<rparr>,
           part_text = None\<rparr>]\<rparr>\<rparr>]\<rparr>) (lit ''b2'') 200,
      ClickThumbnail 1, ClickDelete 0]
   = [\<lparr>img_id = lit ''b2'', url = lit ''data:image/png;base64,BBBB'',
            img_prompt = lit ''dog'', timestamp = 200, img_aspectRatio = lit ''4:3''\<rparr>,
      \<lparr>img_id = lit ''a1'', url = lit ''data:image/png;base64,AAAA'',
            img_prompt = lit ''cat'', timestamp = 100, img_aspectRatio = lit ''1:1''\<rparr>]"
  by (simp add: run_defs)

lemma example_insertions_earlier:
  "insertions (mount (Some (lit ''key'')))
     [ChangePrompt (lit ''cat''), ClickGenerate,
      Settle 0 (Resolved \<lparr>candidates = Some [\<lparr>content = Some \<lparr>parts = Some
         [\<lparr>inlineData = Some \<lparr>data = Some (lit ''AAAA''), mimeType = None\<rparr>,
           part_text = None\<rparr>]\<rparr>\<rparr>]\<rparr>) (lit ''a1'') 100,
      ChangePrompt (lit ''dog''), ClickAspectRatio (lit ''4:3''), ClickGenerate,
      Settle 0 (Resolved \<lparr>candidates = Some [\<lparr>content = Some \<lparr>parts = Some
         [\<lparr>inlineData = Some \<lparr>data = Some (lit ''BBBB''), mimeType = None\<rparr>,
           part_text = None\<rparr>]\<rparr>\<rparr>]\<rparr>) (lit ''b2'') 200,
      ClickThumbnail 1, ClickDelete 1]
   = [\<lparr>img_id = lit ''b2'', url = lit ''data:image/png;base64,BBBB'',
            img_prompt = lit ''dog'', timestamp = 200, img_aspectRatio = lit ''4:3''\<rparr>,
      \<lparr>img_id = lit ''a1'', url = lit ''data:image/png;base64,AAAA'',
            img_prompt = lit ''cat'', timestamp = 100, img_aspectRatio = lit ''1:1''\<rparr>]"
  by (simp add: run_defs)

section \<open>The generation flag\<close>




section \<open>The order of the history\<close>

text \<open>
  Claim C7. In every session the events of the component can reach, the history is a
  subsequence of the list of the images created so far, the latest first: its entries
  stand in the order of their insertion, the most recent first. Selecting an image
  leaves the history as it is, and \<open>deleteImage\<close>, as whatever render closed over it and
  for whatever id, leaves a subsequence of the history it finds: the entries that
  survive keep their order.
\<close>

theorem history_is_insertion_order:
  "(run (mount key) evs = Some c \<longrightarrow> subseq (history (app c)) (insertions (mount key) evs))
   \<and> history (apply_setters s (selectImage img)) = history s
   \<and> subseq (history (apply_setters s (deleteImage r ident))) (history s)"
proof -
  have "history (app (mount key)) = []"
    by (simp add: mount_def initialState_def)
  then have "run (mount key) evs = Some c \<longrightarrow> subseq (history (app c)) (insertions (mount key) evs)"
    using run_history [of "mount key" evs c] by simp
  moreover have "history (apply_setters s (selectImage img)) = history s"
    by (simp add: selectImage_def apply_setters_def)
  moreover have "subseq (history (apply_setters s (deleteImage r ident))) (history s)"
    by (simp add: delete_closure_state)
  ultimately show ?thesis
    by blast
qed

text \<open>
  Two generations, "a1" then "b2", then the older image is selected and the delete
  button of the preview is clicked. When the preview on screen is the current one, that
  of "a1", the history that remains is "b2"; when it is still the earlier one, that of
  "b2", the history that remains is "a1". Either way it is a subsequence of the images
  the run created, "b2" and "a1".
\<close>

theorem history_is_insertion_order_witness:
  "(\<exists>c. run (mount (Some (lit ''key'')))
     [ChangePrompt (lit ''cat''), ClickGenerate,
      Settle 0 (Resolved \<lparr>candidates = Some [\<lparr>content = Some \<lparr>parts = Some
         [\<lparr>inlineData = Some \<lparr>data = Some (lit ''AAAA''), mimeType = None\<rparr>,
           part_text = None\<rparr>]\<rparr>\<rparr>]\<rparr>) (lit ''a1'') 100,
      ChangePrompt (lit ''dog''), ClickAspectRatio (lit ''4:3''), ClickGenerate,
      Settle 0 (Resolved \<lparr>candidates = Some [\<lparr>content = Some \<lparr>parts = Some
         [\<lparr>inlineData = Some \<lparr>data = Some (lit ''BBBB''), mimeType = None\<rparr>,
           part_text = None\<rparr>]\<rparr>\<rparr>]\<rparr>) (lit ''b2'') 200,
      ClickThumbnail 1, ClickDelete 0] = Some c
    \<and> map img_id (history (app c)) = [lit ''b2'']
    \<and> subseq (history (app c))
        [\<lparr>img_id = lit ''b2'', url = lit ''data:image/png;base64,BBBB'',
            img_prompt = lit ''dog'', timestamp = 200, img_aspectRatio = lit ''4:3''\<rparr>,
         \<lparr>img_id = lit ''a1'', url = lit ''data:image/png;base64,AAAA'',
            img_prompt = lit ''cat'', timestamp = 100, img_aspectRatio = lit ''1:1''\<rparr>])
   \<and> (\<exists>c. run (mount (Some (lit ''key'')))
     [ChangePrompt (lit ''cat''), ClickGenerate,
      Settle 0 (Resolved \<lparr>candidates = Some [\<lparr>content = Some \<lparr>parts = Some
         [\<lparr>inlineData = Some \<lparr>data = Some (lit ''AAAA''), mimeType = None\<rparr>,
           part_text = None\<rparr>]\<rparr>\<rparr>]\<rparr>) (lit ''a1'') 100,
      ChangePrompt (lit ''dog''), ClickAspectRatio (lit ''4:3''), ClickGenerate,
      Settle 0 (Resolved \<lparr>candidates = Some [\<lparr>content = Some \<lparr>parts = Some
         [\<lparr>inlineData = Some \<lparr>data = Some (lit ''BBBB''), mimeType = None\<rparr>,
           part_text = None\<rparr>]\<rparr>\<rparr>]\<rparr>) (lit ''b2'') 200,
      ClickThumbnail 1, ClickDelete 1] = Some c
    \<and> map img_id (history (app c)) = [lit ''a1'']
    \<and> subseq (history (app c))
        [\<lparr>img_id = lit ''b2'', url = lit ''data:image/png;base64,BBBB'',
            img_prompt = lit ''dog'', timestamp = 200, img_aspectRatio = lit ''4:3''\<rparr>,
         \<lparr>img_id = lit ''a1'', url = lit ''data:image/png;base64,AAAA'',
            img_prompt = lit ''cat'', timestamp = 100, img_aspectRatio = lit ''1:1''\<rparr>])"
proof -
  let ?m = "mount (Some (lit ''key''))"
  let ?e0 = "[ChangePrompt (lit ''cat''), ClickGenerate,
      Settle 0 (Resolved \<lparr>candidates = Some [\<lparr>content = Some \<lparr>parts = Some
         [\<lparr>inlineData = Some \<lparr>data = Some (lit ''AAAA''), mimeType = None\<rparr>,
           part_text = None\<rparr>]\<rparr>\<rparr>]\<rparr>) (lit ''a1'') 100,
      ChangePrompt (lit ''dog''), ClickAspectRatio (lit ''4:3''), ClickGenerate,
      Settle 0 (Resolved \<lparr>candidates = Some [\<lparr>content = Some \<lparr>parts = Some
         [\<lparr>inlineData = Some \<lparr>data = Some (lit ''BBBB''), mimeType = None\<rparr>,
           part_text = None\<rparr>]\<rparr>\<rparr>]\<rparr>) (lit ''b2'') 200,
      ClickThumbnail 1, ClickDelete 0]"
  let ?e1 = "[ChangePrompt (lit ''cat''), ClickGenerate,
      Settle 0 (Resolved \<lparr>candidates = Some [\<lparr>content = Some \<lparr>parts = Some
         [\<lparr>inlineData = Some \<lparr>data = Some (lit ''AAAA''), mimeType = None\<rparr>,
           part_text = None\<rparr>]\<rparr>\<rparr>]\<rparr>) (lit ''a1'') 100,
      ChangePrompt (lit ''dog''), ClickAspectRatio (lit ''4:3''), ClickGenerate,
      Settle 0 (Resolved \<lparr>candidates = Some [\<lparr>content = Some \<lparr>parts = Some
         [\<lparr>inlineData = Some \<lparr>data = Some (lit ''BBBB''), mimeType = None\<rparr>,
           part_text = None\<rparr>]\<rparr>\<rparr>]\<rparr>) (lit ''b2'') 200,
      ClickThumbnail 1, ClickDelete 1]"
  let ?imgs = "[\<lparr>img_id = lit ''b2'', url = lit ''data:image/png;base64,BBBB'',
            img_prompt = lit ''dog'', timestamp = 200, img_aspectRatio = lit ''4:3''\<rparr>,
         \<lparr>img_id = lit ''a1'', url = lit ''data:image/png;base64,AAAA'',
            img_prompt = lit ''cat'', timestamp = 100, img_aspectRatio = lit ''1:1''\<rparr>]"
  from example_run_delete_current [unfolded map_option_eq_Some] obtain d where
    rd: "run ?m ?e0 = Some d"
    and ad: "app d = \<lparr>prompt = [], isGenerating = False, aspectRatio = lit ''4:3'',
        history =
          [\<lparr>img_id = lit ''b2'', url = lit ''data:image/png;base64,BBBB'',
            img_prompt = lit ''dog'', timestamp = 200, img_aspectRatio = lit ''4:3''\<rparr>],
        selectedImage = None,
        error = None\<rparr>"
    by (elim exE conjE)
  from example_run_delete_earlier [unfolded map_option_eq_Some] obtain e where
    re: "run ?m ?e1 = Some e"
    and ae: "app e = \<lparr>prompt = [], isGenerating = False, aspectRatio = lit ''4:3'',
        history =
          [\<lparr>img_id = lit ''a1'', url = lit ''data:image/png;base64,AAAA'',
            img_prompt = lit ''cat'', timestamp = 100, img_aspectRatio = lit ''1:1''\<rparr>],
        selectedImage = None,
        error = None\<rparr>"
    by (elim exE conjE)
  have hd: "map img_id (history (app d)) = [lit ''b2'']"
    unfolding ad by simp
  have he: "map img_id (history (app e)) = [lit ''a1'']"
    unfolding ae by simp
  have "subseq (history (app d)) (insertions ?m ?e0)"
    by (rule history_is_insertion_order [THEN conjunct1, THEN mp, OF rd])
  then have sd: "subseq (history (app d)) ?imgs"
    unfolding example_insertions_current .
  have "subseq (history (app e)) (insertions ?m ?e1)"
    by (rule history_is_insertion_order [THEN conjunct1, THEN mp, OF re])
  then have se: "subseq (history (app e)) ?imgs"
    unfolding example_insertions_earlier .
  show ?thesis
  proof (intro conjI)
    from rd hd sd show "\<exists>c. run ?m ?e0 = Some c \<and> map img_id (history (app c)) = [lit ''b2'']
        \<and> subseq (history (app c)) ?imgs"
      by (intro exI [of _ d] conjI)
    from re he se show "\<exists>c. run ?m ?e1 = Some c \<and> map img_id (history (app c)) = [lit ''a1'']
        \<and> subseq (history (app c)) ?imgs"
      by (intro exI [of _ e] conjI)
  qed
qed

section \<open>The selection\<close>

text \<open>
  Claim C8. In every session the events of the component can reach, the selection, when
  there is one, has the id of an entry of the history. Each operation keeps it so: both
  parts of a generation, whatever the outcome, the selection of an entry of the
  history, and the deletion: \<open>deleteImage\<close> run in the state it closed over, for any
  id, and \<open>deleteImage\<close> run as the overlay button of any render calls it, with the id of
  the selection of that render, in whatever state the session is by then. A deletion
  of the id of the selected image clears the selection, and so does every deletion an
  overlay button starts.
\<close>

theorem selection_refers_to_history:
  "(run (mount key) evs = Some c \<longrightarrow> selection_in_history (app c))
   \<and> (selection_in_history s \<longrightarrow>
        selection_in_history (apply_setters s (fst (handleGenerate_begin ai s)))
        \<and> selection_in_history (apply_setters s (handleGenerate_resume cl randomId now out))
        \<and> selection_in_history (apply_setters s (deleteImage s ident)))
   \<and> (img \<in> set (history s) \<longrightarrow> selection_in_history (apply_setters s (selectImage img)))
   \<and> ((\<exists>sel. selectedImage s = Some sel \<and> img_id sel = ident) \<longrightarrow>
        selectedImage (apply_setters s (deleteImage s ident)) = None)
   \<and> (selectedImage r = Some shown \<longrightarrow>
        selectedImage (apply_setters s (deleteImage r (img_id shown))) = None
        \<and> selection_in_history (apply_setters s (deleteImage r (img_id shown))))"
proof -
  have "selection_in_history (app (mount key))"
    by (simp add: mount_def initialState_def selection_in_history_def)
  then have "run (mount key) evs = Some c \<longrightarrow> selection_in_history (app c)"
    using run_selection by blast
  moreover have "(\<exists>sel. selectedImage s = Some sel \<and> img_id sel = ident) \<longrightarrow>
        selectedImage (apply_setters s (deleteImage s ident)) = None"
    by (auto simp add: delete_state)
  ultimately show ?thesis
    using begin_selection resume_selection delete_selection select_selection
      overlay_delete_selection
    by blast
qed

text \<open>
  Two generations, then the older image is selected: it is an entry of the history.
  Then the delete button of the earlier preview, that of "b2", is clicked: "b2" leaves
  the history and the selection is cleared.
\<close>

theorem selection_refers_to_history_witness:
  "(\<exists>c. run (mount (Some (lit ''key'')))
     [ChangePrompt (lit ''cat''), ClickGenerate,
      Settle 0 (Resolved \<lparr>candidates = Some [\<lparr>content = Some \<lparr>parts = Some
         [\<lparr>inlineData = Some \<lparr>data = Some (lit ''AAAA''), mimeType = None\<rparr>,
           part_text = None\<rparr>]\<rparr>\<rparr>]\<rparr>) (lit ''a1'') 100,
      ChangePrompt (lit ''dog''), ClickAspectRatio (lit ''4:3''), ClickGenerate,
      Settle 0 (Resolved \<lparr>candidates = Some [\<lparr>content = Some \<lparr>parts = Some
         [\<lparr>inlineData = Some \<lparr>data = Some (lit ''BBBB''), mimeType = None\<rparr>,
           part_text = None\<rparr>]\<rparr>\<rparr>]\<rparr>) (lit ''b2'') 200,
      ClickThumbnail 1] = Some c
    \<and> map_option img_id (selectedImage (app c)) = Some (lit ''a1'')
    \<and> map img_id (history (app c)) = [lit ''b2'', lit ''a1'']
    \<and> selection_in_history (app c))
   \<and> (\<exists>c. run (mount (Some (lit ''key'')))
     [ChangePrompt (lit ''cat''), ClickGenerate,
      Settle 0 (Resolved \<lparr>candidates = Some [\<lparr>content = Some \<lparr>parts = Some
         [\<lparr>inlineData = Some \<lparr>data = Some (lit ''AAAA''), mimeType = None\<rparr>,
           part_text = None\<rparr>]\<rparr>\<rparr>]\<rparr>) (lit ''a1'') 100,
      ChangePrompt (lit ''dog''), ClickAspectRatio (lit ''4:3''), ClickGenerate,
      Settle 0 (Resolved \<lparr>candidates = Some [\<lparr>content = Some \<lparr>parts = Some
         [\<lparr>inlineData = Some \<lparr>data = Some (lit ''BBBB''), mimeType = None\<rparr>,
           part_text = None\<rparr>]\<rparr>\<rparr>]\<rparr>) (lit ''b2'') 200,
      ClickThumbnail 1, ClickDelete 1] = Some c
    \<and> selectedImage (app c) = None
    \<and> map img_id (history (app c)) = [lit ''a1'']
    \<and> selection_in_history (app c))"
proof -
  let ?m = "mount (Some (lit ''key''))"
  let ?e0 = "[ChangePrompt (lit ''cat''), ClickGenerate,
      Settle 0 (Resolved \<lparr>candidates = Some [\<lparr>content = Some \<lparr>parts = Some
         [\<lparr>inlineData = Some \<lparr>data = Some (lit ''AAAA''), mimeType = None\<rparr>,
           part_text = None\<rparr>]\<rparr>\<rparr>]\<rparr>) (lit ''a1'') 100,
      ChangePrompt (lit ''dog''), ClickAspectRatio (lit ''4:3''), ClickGenerate,
      Settle 0 (Resolved \<lparr>candidates = Some [\<lparr>content = Some \<lparr>parts = Some
         [\<lparr>inlineData = Some \<lparr>data = Some (lit ''BBBB''), mimeType = None\<rparr>,
           part_text = None\<rparr>]\<rparr>\<rparr>]\<rparr>) (lit ''b2'') 200,
      ClickThumbnail 1]"
  let ?e1 = "[ChangePrompt (lit ''cat''), ClickGenerate,
      Settle 0 (Resolved \<lparr>candidates = Some [\<lparr>content = Some \<lparr>parts = Some
         [\<lparr>inlineData = Some \<lparr>data = Some (lit ''AAAA''), mimeType = None\<rparr>,
           part_text = None\<rparr>]\<rparr>\<rparr>]\<rparr>) (lit ''a1'') 100,
      ChangePrompt (lit ''dog''), ClickAspectRatio (lit ''4:3''), ClickGenerate,
      Settle 0 (Resolved \<lparr>candidates = Some [\<lparr>content = Some \<lparr>parts = Some
         [\<lparr>inlineData = Some \<lparr>data = Some (lit ''BBBB''), mimeType = None\<rparr>,
           part_text = None\<rparr>]\<rparr>\<rparr>]\<rparr>) (lit ''b2'') 200,
      ClickThumbnail 1, ClickDelete 1]"
  from example_run_two_images [unfolded map_option_eq_Some] obtain d where
    rd: "run ?m ?e0 = Some d"
    and ad: "app d = \<lparr>prompt = [], isGenerating = False, aspectRatio = lit ''4:3'',
        history =
          [\<lparr>img_id = lit ''b2'', url = lit ''data:image/png;base64,BBBB'',
            img_prompt = lit ''dog'', timestamp = 200, img_aspectRatio = lit ''4:3''\<rparr>,
           \<lparr>img_id = lit ''a1'', url = lit ''data:image/png;base64,AAAA'',
            img_prompt = lit ''cat'', timestamp = 100, img_aspectRatio = lit ''1:1''\<rparr>],
        selectedImage =
          Some \<lparr>img_id = lit ''a1'', url = lit ''data:image/png;base64,AAAA'',
            img_prompt = lit ''cat'', timestamp = 100, img_aspectRatio = lit ''1:1''\<rparr>,
        error = None\<rparr>"
    by (elim exE conjE)
  from example_run_delete_earlier [unfolded map_option_eq_Some] obtain e where
    re: "run ?m ?e1 = Some e"
    and ae: "app e = \<lparr>prompt = [], isGenerating = False, aspectRatio = lit ''4:3'',
        history =
          [\<lparr>img_id = lit ''a1'', url = lit ''data:image/png;base64,AAAA'',
            img_prompt = lit ''cat'', timestamp = 100, img_aspectRatio = lit ''1:1''\<rparr>],
        selectedImage = None,
        error = None\<rparr>"
    by (elim exE conjE)
  have sd: "map_option img_id (selectedImage (app d)) = Some (lit ''a1'')"
    and hd: "map img_id (history (app d)) = [lit ''b2'', lit ''a1'']"
    unfolding ad by simp_all
  have se: "selectedImage (app e) = None"
    and he: "map img_id (history (app e)) = [lit ''a1'']"
    unfolding ae by simp_all
  have id: "selection_in_history (app d)"
    by (rule selection_refers_to_history [THEN conjunct1, THEN mp, OF rd])
  have ie: "selection_in_history (app e)"
    by (rule selection_refers_to_history [THEN conjunct1, THEN mp, OF re])
  show ?thesis
  proof (intro conjI)
    from rd sd hd id show "\<exists>c. run ?m ?e0 = Some c
        \<and> map_option img_id (selectedImage (app c)) = Some (lit ''a1'')
        \<and> map img_id (history (app c)) = [lit ''b2'', lit ''a1'']
        \<and> selection_in_history (app c)"
      by (intro exI [of _ d] conjI)
    from re se he ie show "\<exists>c. run ?m ?e1 = Some c
        \<and> selectedImage (app c) = None
        \<and> map img_id (history (app c)) = [lit ''a1'']
        \<and> selection_in_history (app c)"
      by (intro exI [of _ e] conjI)
  qed
qed

end
